theory Spec2Isabelle
  imports Complex_Main "HOL-Library.Char_ord" "HOL-Library.List_Lexorder"
begin

section \<open>Numeric values\<close>

text \<open>
  The counters of a cleaned record (\<open>impressions\<close>, \<open>clicks\<close>, \<open>spent\<close>,
  \<open>total_conversion\<close>, \<open>approved_conversion\<close>) are numbers: the cleaning stage
  replaces every missing or non-numeric counter by 0 (\<open>handle_missing_values\<close>). They are
  modelled as reals, so rounding and overflow of the 64-bit floats are not part of the model.

  A quotient of two pandas columns never raises: where the divisor is zero the result is one of
  the special values of the float type (\<open>0/0\<close> is not-a-number, \<open>x/0\<close> is an infinity
  with the sign of \<open>x\<close>). The derived columns therefore hold values of the type \<open>fval\<close>.
  The sign of a zero is not modelled: a zero divisor counts as \<open>+0\<close>.
\<close>

datatype fval = Num real | PosInf | NegInf | NaN

fun fdiv :: "fval \<Rightarrow> fval \<Rightarrow> fval" where
  "fdiv (Num a) (Num b) =
     (if b \<noteq> 0 then Num (a / b) else if a = 0 then NaN else if 0 < a then PosInf else NegInf)"
| "fdiv NaN y = NaN"
| "fdiv x NaN = NaN"
| "fdiv (Num a) PosInf = Num 0"
| "fdiv (Num a) NegInf = Num 0"
| "fdiv PosInf (Num b) = (if 0 \<le> b then PosInf else NegInf)"
| "fdiv NegInf (Num b) = (if 0 \<le> b then NegInf else PosInf)"
| "fdiv PosInf PosInf = NaN"
| "fdiv PosInf NegInf = NaN"
| "fdiv NegInf PosInf = NaN"
| "fdiv NegInf NegInf = NaN"

fun fmul :: "fval \<Rightarrow> fval \<Rightarrow> fval" where
  "fmul (Num a) (Num b) = Num (a * b)"
| "fmul NaN y = NaN"
| "fmul x NaN = NaN"
| "fmul PosInf (Num b) = (if b = 0 then NaN else if 0 < b then PosInf else NegInf)"
| "fmul NegInf (Num b) = (if b = 0 then NaN else if 0 < b then NegInf else PosInf)"
| "fmul (Num a) PosInf = (if a = 0 then NaN else if 0 < a then PosInf else NegInf)"
| "fmul (Num a) NegInf = (if a = 0 then NaN else if 0 < a then NegInf else PosInf)"
| "fmul PosInf PosInf = PosInf"
| "fmul PosInf NegInf = NegInf"
| "fmul NegInf PosInf = NegInf"
| "fmul NegInf NegInf = PosInf"

text \<open>\<open>x < c\<close> for a float \<open>x\<close> and a finite \<open>c\<close>; every comparison with not-a-number is false.\<close>

fun flt :: "fval \<Rightarrow> real \<Rightarrow> bool" where
  "flt (Num a) c = (a < c)"
| "flt NegInf c = True"
| "flt PosInf c = False"
| "flt NaN c = False"

text \<open>The undefined markers: not-a-number and the two infinities a division by zero gives.\<close>

fun is_undefined :: "fval \<Rightarrow> bool" where
  "is_undefined (Num a) = False"
| "is_undefined PosInf = True"
| "is_undefined NegInf = True"
| "is_undefined NaN = True"

text \<open>The sum of a column of floats, used to state what the shares of one call add up to.\<close>

fun fadd :: "fval \<Rightarrow> fval \<Rightarrow> fval" where
  "fadd (Num a) (Num b) = Num (a + b)"
| "fadd NaN y = NaN"
| "fadd x NaN = NaN"
| "fadd PosInf NegInf = NaN"
| "fadd NegInf PosInf = NaN"
| "fadd PosInf y = PosInf"
| "fadd NegInf y = NegInf"
| "fadd (Num a) PosInf = PosInf"
| "fadd (Num a) NegInf = NegInf"

fun fsum :: "fval list \<Rightarrow> fval" where
  "fsum [] = Num 0"
| "fsum (x # xs) = fadd x (fsum xs)"

section \<open>Records of the input table\<close>

text \<open>
  One row of the data frame. A key column holds \<open>None\<close> where the value is missing
  (\<open>campaign_id\<close> is never filled by the cleaning stage, and \<open>month\<close> and
  \<open>day_of_week\<close> come from a date that may have failed to parse).
\<close>

record row =
  campaign_id :: "string option"
  gender :: "string option"
  age_group :: "string option"
  demographic_segment :: "string option"
  month :: "string option"
  day_of_week :: "string option"
  impressions :: real
  clicks :: real
  spent :: real
  total_conversion :: real
  approved_conversion :: real

section \<open>Feature engineering: the per-record KPIs\<close>

record kpis =
  ctr :: fval
  conversion_rate :: fval
  approved_conversion_rate :: fval
  cost_per_acquisition :: fval
  cpm :: fval

text \<open>
  \<open>np.where(c, a, b)\<close> computes both columns and then selects element by element; the
  quotient column is computed without raising, so the selection is an \<open>if\<close> per row.
\<close>

definition create_kpi_features :: "row \<Rightarrow> kpis" where
  "create_kpi_features r =
     \<lparr> ctr = (if impressions r > 0 then fdiv (Num (clicks r)) (Num (impressions r)) else Num 0),
       conversion_rate =
         (if clicks r > 0 then fdiv (Num (total_conversion r)) (Num (clicks r)) else Num 0),
       approved_conversion_rate =
         (if total_conversion r > 0
          then fdiv (Num (approved_conversion r)) (Num (total_conversion r)) else Num 0),
       cost_per_acquisition =
         (if approved_conversion r > 0
          then fdiv (Num (spent r)) (Num (approved_conversion r)) else NaN),
       cpm =
         (if impressions r > 0
          then fmul (fdiv (Num (spent r)) (Num (impressions r))) (Num 1000) else Num 0) \<rparr>"

section \<open>Feature engineering: the demographic segment\<close>

text \<open>
  The function branches on which columns the data frame has, so here the frame is a record of
  optional columns: \<open>None\<close> is an absent column, and inside a column \<open>None\<close> is a
  missing value. \<open>+\<close> on two string columns concatenates element by element and is
  missing where either side is.
\<close>

record demo_frame =
  gender_col :: "string option list option"
  age_col :: "string option list option"
  age_group_col :: "string option list option"
  demographic_segment_col :: "string option list option"

fun str_add :: "string option \<Rightarrow> string option \<Rightarrow> string option" where
  "str_add (Some a) (Some b) = Some (a @ b)"
| "str_add x y = None"

definition create_demographic_features :: "demo_frame \<Rightarrow> demo_frame" where
  "create_demographic_features df =
     (let df1 = (case age_col df of
                   Some c \<Rightarrow> df\<lparr>age_group_col := Some c\<rparr>
                 | None \<Rightarrow> df)
      in case (gender_col df1, age_group_col df1) of
           (Some g, Some a) \<Rightarrow>
             df1\<lparr>demographic_segment_col :=
                   Some (map2 (\<lambda>x y. str_add (str_add x (Some ''_'')) y) g a)\<rparr>
         | _ \<Rightarrow> df1)"

section \<open>ROI calculation: grouping\<close>

text \<open>
  \<open>df.groupby(col, as_index=False).agg({...: "sum"})\<close>: one row per distinct key, the keys
  sorted, the rows whose key is missing dropped, and each counter summed over the rows of
  the key.
\<close>

record 'k agg_row =
  g_key :: 'k
  g_spent :: real
  g_impressions :: real
  g_clicks :: real
  g_approved_conversion :: real

definition group_keys :: "(row \<Rightarrow> 'k::linorder option) \<Rightarrow> row list \<Rightarrow> 'k list" where
  "group_keys col df = sort (remdups (List.map_filter col df))"

definition group_sum :: "(row \<Rightarrow> 'k option) \<Rightarrow> row list \<Rightarrow> 'k \<Rightarrow> (row \<Rightarrow> real) \<Rightarrow> real" where
  "group_sum col df k f = sum_list (map f (filter (\<lambda>r. col r = Some k) df))"

definition groupby_agg :: "(row \<Rightarrow> 'k::linorder option) \<Rightarrow> row list \<Rightarrow> 'k agg_row list" where
  "groupby_agg col df =
     map (\<lambda>k. \<lparr> g_key = k,
                g_spent = group_sum col df k spent,
                g_impressions = group_sum col df k impressions,
                g_clicks = group_sum col df k clicks,
                g_approved_conversion = group_sum col df k approved_conversion \<rparr>)
         (group_keys col df)"

record 'k roi_row = "'k agg_row" +
  revenue :: real
  profit :: real
  roi :: fval
  roas :: fval
  cpa :: fval

section \<open>ROI calculation: overall metrics\<close>

record overall_metrics =
  overall_total_spend :: real
  overall_total_revenue :: real
  overall_total_profit :: real
  overall_roi :: fval
  overall_roas :: fval
  overall_cpa :: fval
  overall_ctr :: fval
  overall_conversion_rate :: fval

definition calculate_overall_roi :: "real \<Rightarrow> row list \<Rightarrow> overall_metrics" where
  "calculate_overall_roi conversion_value df =
     (let total_spend = sum_list (map spent df);
          total_impressions = sum_list (map impressions df);
          total_clicks = sum_list (map clicks df);
          total_conversions = sum_list (map approved_conversion df);
          total_revenue = total_conversions * conversion_value
      in \<lparr> overall_total_spend = total_spend,
           overall_total_revenue = total_revenue,
           overall_total_profit = total_revenue - total_spend,
           overall_roi =
             (if total_spend > 0
              then fdiv (Num (total_revenue - total_spend)) (Num total_spend) else Num 0),
           overall_roas =
             (if total_spend > 0 then fdiv (Num total_revenue) (Num total_spend) else Num 0),
           overall_cpa =
             (if total_conversions > 0
              then fdiv (Num total_spend) (Num total_conversions) else NaN),
           overall_ctr =
             (if total_impressions > 0
              then fdiv (Num total_clicks) (Num total_impressions) else Num 0),
           overall_conversion_rate =
             (if total_clicks > 0
              then fdiv (Num total_conversions) (Num total_clicks) else Num 0) \<rparr>)"

section \<open>ROI calculation: campaign metrics\<close>

text \<open>\<open>performance_tier\<close> is \<open>None\<close> until \<open>assign_performance_tiers\<close> adds the column.\<close>

record 'k campaign_metrics = "'k roi_row" +
  c_ctr :: fval
  c_conversion_rate :: fval
  performance_tier :: "string option"

text \<open>
  Every column assignment of the function acts row by row on the grouped table;
  \<open>campaign_roi_row\<close> is what they do to one row.
\<close>

definition campaign_roi_row :: "real \<Rightarrow> 'k agg_row \<Rightarrow> 'k campaign_metrics" where
  "campaign_roi_row conversion_value g =
     (let rev = g_approved_conversion g * conversion_value;
          prof = rev - g_spent g
      in \<lparr> g_key = g_key g,
           g_spent = g_spent g,
           g_impressions = g_impressions g,
           g_clicks = g_clicks g,
           g_approved_conversion = g_approved_conversion g,
           revenue = rev,
           profit = prof,
           roi = fdiv (Num prof) (Num (g_spent g)),
           roas = fdiv (Num rev) (Num (g_spent g)),
           cpa = (if g_approved_conversion g > 0
                  then fdiv (Num (g_spent g)) (Num (g_approved_conversion g)) else NaN),
           c_ctr = fdiv (Num (g_clicks g)) (Num (g_impressions g)),
           c_conversion_rate =
             (if g_clicks g > 0
              then fdiv (Num (g_approved_conversion g)) (Num (g_clicks g)) else Num 0),
           performance_tier = None \<rparr>)"

definition calculate_campaign_roi :: "real \<Rightarrow> row list \<Rightarrow> string campaign_metrics list" where
  "calculate_campaign_roi conversion_value df =
     map (campaign_roi_row conversion_value) (groupby_agg campaign_id df)"

section \<open>ROI calculation: metrics of one grouping column\<close>

record 'k group_metrics = "'k roi_row" +
  spend_share :: fval
  conversion_share :: fval
  efficiency_score :: fval

text \<open>
  One row of the result, given the two column totals of the grouped table that the shares
  divide by.
\<close>

definition group_roi_row :: "real \<Rightarrow> real \<Rightarrow> real \<Rightarrow> 'k agg_row \<Rightarrow> 'k group_metrics" where
  "group_roi_row conversion_value spent_sum conversion_sum g =
     (let rev = g_approved_conversion g * conversion_value;
          prof = rev - g_spent g;
          sshare = fdiv (Num (g_spent g)) (Num spent_sum);
          cshare = fdiv (Num (g_approved_conversion g)) (Num conversion_sum)
      in \<lparr> g_key = g_key g,
           g_spent = g_spent g,
           g_impressions = g_impressions g,
           g_clicks = g_clicks g,
           g_approved_conversion = g_approved_conversion g,
           revenue = rev,
           profit = prof,
           roi = fdiv (Num prof) (Num (g_spent g)),
           roas = fdiv (Num rev) (Num (g_spent g)),
           cpa = (if g_approved_conversion g > 0
                  then fdiv (Num (g_spent g)) (Num (g_approved_conversion g)) else NaN),
           spend_share = sshare,
           conversion_share = cshare,
           efficiency_score = fdiv cshare sshare \<rparr>)"

definition group_roi ::
  "real \<Rightarrow> (row \<Rightarrow> 'k::linorder option) \<Rightarrow> row list \<Rightarrow> 'k group_metrics list" where
  "group_roi conversion_value group_col df =
     (let grouped = groupby_agg group_col df
      in map (group_roi_row conversion_value
                (sum_list (map g_spent grouped))
                (sum_list (map g_approved_conversion grouped)))
             grouped)"

section \<open>ROI calculation: performance tiers\<close>

definition tier :: "fval \<Rightarrow> string" where
  "tier x =
     (if flt x 1 then ''Loss Making''
      else if flt x 2 then ''Break Even''
      else if flt x 5 then ''Profitable''
      else ''Highly Profitable'')"

definition assign_performance_tiers ::
  "'k campaign_metrics list \<Rightarrow> 'k campaign_metrics list" where
  "assign_performance_tiers campaign_df =
     map (\<lambda>c. c\<lparr>performance_tier := Some (tier (roas c))\<rparr>) campaign_df"

section \<open>ROI calculation: the columns of the result tables\<close>

text \<open>
  The numeric columns of one row of each result table by name, in the order in which the
  function creates them. A name that is not listed is not a column of the table: the function
  never assigns it, and reading it from the table fails. (The key column and
  \<open>performance_tier\<close> hold strings and are left out.)
\<close>

definition group_columns :: "'k group_metrics \<Rightarrow> (string \<times> fval) list" where
  "group_columns g =
     [(''spent'', Num (g_spent g)),
      (''impressions'', Num (g_impressions g)),
      (''clicks'', Num (g_clicks g)),
      (''approved_conversion'', Num (g_approved_conversion g)),
      (''revenue'', Num (revenue g)),
      (''profit'', Num (profit g)),
      (''roi'', roi g),
      (''roas'', roas g),
      (''cpa'', cpa g),
      (''spend_share'', spend_share g),
      (''conversion_share'', conversion_share g),
      (''efficiency_score'', efficiency_score g)]"

definition campaign_columns :: "'k campaign_metrics \<Rightarrow> (string \<times> fval) list" where
  "campaign_columns c =
     [(''spent'', Num (g_spent c)),
      (''impressions'', Num (g_impressions c)),
      (''clicks'', Num (g_clicks c)),
      (''approved_conversion'', Num (g_approved_conversion c)),
      (''revenue'', Num (revenue c)),
      (''profit'', Num (profit c)),
      (''roi'', roi c),
      (''roas'', roas c),
      (''cpa'', cpa c),
      (''ctr'', c_ctr c),
      (''conversion_rate'', c_conversion_rate c)]"

section \<open>Example rows\<close>

text \<open>
  A row of campaign \<open>cid\<close> with the given counters (impressions, clicks, spent, total
  conversions, approved conversions); the other key columns are fixed.
\<close>

abbreviation example_row :: "string \<Rightarrow> real \<Rightarrow> real \<Rightarrow> real \<Rightarrow> real \<Rightarrow> real \<Rightarrow> row" where
  "example_row cid imp clk sp tc ac \<equiv>
     \<lparr> campaign_id = Some cid, gender = Some ''M'', age_group = Some ''30-34'',
       demographic_segment = Some ''M_30-34'', month = Some ''2017-08'',
       day_of_week = Some ''Thursday'', impressions = imp, clicks = clk, spent = sp,
       total_conversion = tc, approved_conversion = ac \<rparr>"

section \<open>Auxiliary facts\<close>

subsection \<open>Grouping\<close>

lemma group_keys_set: "set (group_keys col df) = {k. \<exists>r\<in>set df. col r = Some k}"
  by (force simp: group_keys_def map_filter_def image_iff)

lemma group_keys_distinct: "distinct (group_keys col df)"
  by (simp add: group_keys_def)

lemma groupby_agg_keys: "map g_key (groupby_agg col df) = group_keys col df"
  by (simp add: groupby_agg_def comp_def)

lemma group_roi_row_simps [simp]:
  "g_key (group_roi_row cv s c a) = g_key a"
  "g_spent (group_roi_row cv s c a) = g_spent a"
  "g_approved_conversion (group_roi_row cv s c a) = g_approved_conversion a"
  "revenue (group_roi_row cv s c a) = g_approved_conversion a * cv"
  "roi (group_roi_row cv s c a) = fdiv (Num (g_approved_conversion a * cv - g_spent a)) (Num (g_spent a))"
  "roas (group_roi_row cv s c a) = fdiv (Num (g_approved_conversion a * cv)) (Num (g_spent a))"
  "cpa (group_roi_row cv s c a) =
     (if g_approved_conversion a > 0
      then fdiv (Num (g_spent a)) (Num (g_approved_conversion a)) else NaN)"
  "spend_share (group_roi_row cv s c a) = fdiv (Num (g_spent a)) (Num s)"
  "conversion_share (group_roi_row cv s c a) = fdiv (Num (g_approved_conversion a)) (Num c)"
  "efficiency_score (group_roi_row cv s c a) =
     fdiv (fdiv (Num (g_approved_conversion a)) (Num c)) (fdiv (Num (g_spent a)) (Num s))"
  by (simp_all add: group_roi_row_def Let_def)

lemma campaign_roi_row_simps [simp]:
  "g_key (campaign_roi_row cv a) = g_key a"
  "g_spent (campaign_roi_row cv a) = g_spent a"
  "g_clicks (campaign_roi_row cv a) = g_clicks a"
  "g_impressions (campaign_roi_row cv a) = g_impressions a"
  "g_approved_conversion (campaign_roi_row cv a) = g_approved_conversion a"
  "revenue (campaign_roi_row cv a) = g_approved_conversion a * cv"
  "roi (campaign_roi_row cv a) = fdiv (Num (g_approved_conversion a * cv - g_spent a)) (Num (g_spent a))"
  "roas (campaign_roi_row cv a) = fdiv (Num (g_approved_conversion a * cv)) (Num (g_spent a))"
  "cpa (campaign_roi_row cv a) =
     (if g_approved_conversion a > 0
      then fdiv (Num (g_spent a)) (Num (g_approved_conversion a)) else NaN)"
  "c_ctr (campaign_roi_row cv a) = fdiv (Num (g_clicks a)) (Num (g_impressions a))"
  by (simp_all add: campaign_roi_row_def Let_def)

lemma group_roi_mem:
  "g \<in> set (group_roi cv col df) \<Longrightarrow>
   \<exists>a \<in> set (groupby_agg col df).
     g = group_roi_row cv (sum_list (map g_spent (groupby_agg col df)))
           (sum_list (map g_approved_conversion (groupby_agg col df))) a"
  by (auto simp: group_roi_def Let_def)

lemma campaign_roi_mem:
  "c \<in> set (calculate_campaign_roi cv df) \<Longrightarrow>
   \<exists>a \<in> set (groupby_agg campaign_id df). c = campaign_roi_row cv a"
  by (auto simp: calculate_campaign_roi_def)

lemma group_roi_keys: "map g_key (group_roi cv col df) = group_keys col df"
  by (simp add: group_roi_def Let_def comp_def groupby_agg_keys [symmetric])

lemma campaign_roi_keys: "map g_key (calculate_campaign_roi cv df) = group_keys campaign_id df"
  by (simp add: calculate_campaign_roi_def comp_def groupby_agg_keys [symmetric])

lemma count_distinct: "distinct xs \<Longrightarrow> x \<in> set xs \<Longrightarrow> length (filter (\<lambda>y. y = x) xs) = 1"
  by (induction xs) (auto simp: filter_empty_conv)

lemma one_row_per_key:
  assumes "map f t = ks" "distinct ks" "k \<in> set ks"
  shows "length (filter (\<lambda>g. f g = k) t) = 1"
proof -
  have "length (filter (\<lambda>g. f g = k) t) = length (filter (\<lambda>y. y = k) (map f t))"
    by (simp add: filter_map comp_def)
  with assms show ?thesis by (simp add: count_distinct)
qed

lemma group_roi_spent: "map g_spent (group_roi cv col df) = map g_spent (groupby_agg col df)"
  by (simp add: group_roi_def Let_def comp_def)

lemma group_roi_conv:
  "map g_approved_conversion (group_roi cv col df) = map g_approved_conversion (groupby_agg col df)"
  by (simp add: group_roi_def Let_def comp_def)

lemma group_roi_spend_share:
  "map spend_share (group_roi cv col df) =
   map (\<lambda>g. fdiv (Num (g_spent g)) (Num (sum_list (map g_spent (groupby_agg col df)))))
       (groupby_agg col df)"
  by (simp add: group_roi_def Let_def comp_def)

lemma group_roi_conversion_share:
  "map conversion_share (group_roi cv col df) =
   map (\<lambda>g. fdiv (Num (g_approved_conversion g))
                  (Num (sum_list (map g_approved_conversion (groupby_agg col df)))))
       (groupby_agg col df)"
  by (simp add: group_roi_def Let_def comp_def)

lemma members_of_map:
  "map f xs = [v] \<Longrightarrow> x \<in> set xs \<Longrightarrow> f x = v"
  by (cases xs) auto

lemma all_of_map: "map f xs = [v] \<Longrightarrow> \<forall>x \<in> set xs. f x = v"
  by (cases xs) auto

lemmas groupby_eval = groupby_agg_def group_keys_def group_sum_def map_filter_simps

lemma group_column_efficiency:
  "map_of (group_columns g) ''efficiency_score'' = Some (efficiency_score g)"
  by (simp add: group_columns_def)

lemma campaign_column_efficiency:
  "map_of (campaign_columns c) ''efficiency_score'' = None"
  by (simp add: campaign_columns_def)

subsection \<open>Float values\<close>

lemma fdiv_zero_undefined: "is_undefined (fdiv x (Num 0))"
  by (cases x) auto

lemma fdiv_by_undefined_zero: "is_undefined (fdiv x (fdiv (Num 0) (Num t)))"
  by (cases x) auto

lemma fsum_Num: "fsum (map (\<lambda>x. Num (f x)) xs) = Num (sum_list (map f xs))"
  by (induction xs) auto

lemma sum_list_divide: "sum_list (map (\<lambda>x. f x / c) xs) = sum_list (map f xs) / (c::real)"
  by (induction xs) (auto simp: add_divide_distrib)

lemma fsum_shares:
  assumes "sum_list (map f xs) \<noteq> (0::real)"
  shows "fsum (map (\<lambda>x. fdiv (Num (f x)) (Num (sum_list (map f xs)))) xs) = Num 1"
proof -
  have "fsum (map (\<lambda>x. fdiv (Num (f x)) (Num (sum_list (map f xs)))) xs)
      = fsum (map (\<lambda>x. Num (f x / sum_list (map f xs))) xs)"
    using assms by simp
  also have "\<dots> = Num (sum_list (map (\<lambda>x. f x / sum_list (map f xs)) xs))"
    by (rule fsum_Num)
  also have "\<dots> = Num 1"
    using assms by (simp add: sum_list_divide)
  finally show ?thesis .
qed

subsection \<open>Tiers\<close>

lemma tier_range:
  "tier x \<in> {''Loss Making'', ''Break Even'', ''Profitable'', ''Highly Profitable''}"
  by (simp add: tier_def)

lemma tier_special: "tier NaN = ''Highly Profitable''" "tier PosInf = ''Highly Profitable''"
  "tier NegInf = ''Loss Making''"
  by (simp_all add: tier_def)

section \<open>Per-record KPIs\<close>

text \<open>
  C1. For every record, each per-record ratio with a zero denominator is the number 0
  (\<open>ctr\<close> and \<open>cpm\<close> when \<open>impressions = 0\<close>, \<open>conversion_rate\<close> when
  \<open>clicks = 0\<close>, \<open>approved_conversion_rate\<close> when \<open>total_conversion = 0\<close>),
  except \<open>cost_per_acquisition\<close>, which is not-a-number when
  \<open>approved_conversion = 0\<close>. The function has no failing branch: the quotient columns
  are computed for every row, a zero divisor gives a special float value, and the selection
  then discards it.
\<close>

theorem kpi_zero_denominator:
  "(impressions r = 0 \<longrightarrow> ctr (create_kpi_features r) = Num 0) \<and>
   (clicks r = 0 \<longrightarrow> conversion_rate (create_kpi_features r) = Num 0) \<and>
   (total_conversion r = 0 \<longrightarrow> approved_conversion_rate (create_kpi_features r) = Num 0) \<and>
   (impressions r = 0 \<longrightarrow> cpm (create_kpi_features r) = Num 0) \<and>
   (approved_conversion r = 0 \<longrightarrow> cost_per_acquisition (create_kpi_features r) = NaN)"
  by (simp add: create_kpi_features_def)

text \<open>The row whose counters are all zero satisfies every hypothesis at once.\<close>

theorem kpi_zero_denominator_witness:
  "impressions (example_row ''C1'' 0 0 0 0 0) = 0 \<and>
   clicks (example_row ''C1'' 0 0 0 0 0) = 0 \<and>
   total_conversion (example_row ''C1'' 0 0 0 0 0) = 0 \<and>
   approved_conversion (example_row ''C1'' 0 0 0 0 0) = 0 \<and>
   ctr (create_kpi_features (example_row ''C1'' 0 0 0 0 0)) = Num 0 \<and>
   conversion_rate (create_kpi_features (example_row ''C1'' 0 0 0 0 0)) = Num 0 \<and>
   approved_conversion_rate (create_kpi_features (example_row ''C1'' 0 0 0 0 0)) = Num 0 \<and>
   cpm (create_kpi_features (example_row ''C1'' 0 0 0 0 0)) = Num 0 \<and>
   cost_per_acquisition (create_kpi_features (example_row ''C1'' 0 0 0 0 0)) = NaN"
  using kpi_zero_denominator [of "example_row ''C1'' 0 0 0 0 0"] by simp

section \<open>Tier classification\<close>

text \<open>
  C2, as amended. The classifier has no outcome besides the four numeric tiers. A campaign
  with zero spend has an undefined ROAS (not-a-number when its revenue is zero, an infinity
  otherwise); not-a-number and \<open>+\<infinity>\<close> fail all three comparisons and are labelled
  \<open>Highly Profitable\<close>, and only a negative revenue (ROAS \<open>-\<infinity>\<close>) gives
  \<open>Loss Making\<close>. The claim as written, that an undefined ROAS yields a fifth outcome
  distinct from the four tiers, does not hold of the code.
\<close>

theorem tier_zero_spend:
  "(\<forall>c \<in> set (assign_performance_tiers (calculate_campaign_roi cv df)).
      g_spent c = 0 \<longrightarrow>
        performance_tier c =
          Some (if revenue c < 0 then ''Loss Making'' else ''Highly Profitable'')) \<and>
   tier NaN = ''Highly Profitable'' \<and> tier PosInf = ''Highly Profitable'' \<and>
   (\<forall>x. tier x \<in> {''Loss Making'', ''Break Even'', ''Profitable'', ''Highly Profitable''})"
proof (intro conjI ballI impI allI)
  fix c assume "c \<in> set (assign_performance_tiers (calculate_campaign_roi cv df))"
    and z: "g_spent c = 0"
  then obtain a where c: "c = (campaign_roi_row cv a)\<lparr>performance_tier := Some (tier (roas (campaign_roi_row cv a)))\<rparr>"
    unfolding assign_performance_tiers_def calculate_campaign_roi_def set_map by blast
  from z have "g_spent a = 0" by (simp add: c)
  then show "performance_tier c =
          Some (if revenue c < 0 then ''Loss Making'' else ''Highly Profitable'')"
    by (simp add: c tier_special)
next
  show "tier NaN = ''Highly Profitable''" "tier PosInf = ''Highly Profitable''"
    by (simp_all add: tier_special)
next
  fix x show "tier x \<in> {''Loss Making'', ''Break Even'', ''Profitable'', ''Highly Profitable''}"
    by (rule tier_range)
qed

text \<open>
  A single record with no spend and no conversions: the campaign's ROAS is not-a-number and
  its tier is \<open>Highly Profitable\<close>, one of the four numeric tiers.
\<close>

theorem tier_zero_spend_counterexample:
  "map (\<lambda>c. (g_spent c, roas c, performance_tier c))
     (assign_performance_tiers (calculate_campaign_roi 100 [example_row ''C1'' 0 0 0 0 0])) =
   [(0, NaN, Some ''Highly Profitable'')]"
  by (simp add: groupby_eval calculate_campaign_roi_def assign_performance_tiers_def
      campaign_roi_row_def tier_def Let_def)

text \<open>A campaign with zero spend and revenue 200 is in the table and is highly profitable.\<close>

theorem tier_zero_spend_witness:
  "map g_spent
     (assign_performance_tiers (calculate_campaign_roi 100 [example_row ''C1'' 0 0 0 0 2])) = [0] \<and>
   map revenue
     (assign_performance_tiers (calculate_campaign_roi 100 [example_row ''C1'' 0 0 0 0 2])) = [200] \<and>
   list_all (\<lambda>c. performance_tier c = Some ''Highly Profitable'')
     (assign_performance_tiers (calculate_campaign_roi 100 [example_row ''C1'' 0 0 0 0 2]))"
proof -
  let ?t = "assign_performance_tiers (calculate_campaign_roi 100 [example_row ''C1'' 0 0 0 0 2])"
  have s: "map g_spent ?t = [0]" and r: "map revenue ?t = [200]"
    by (simp_all add: groupby_eval calculate_campaign_roi_def assign_performance_tiers_def
        campaign_roi_row_def Let_def)
  have "performance_tier c = Some ''Highly Profitable''" if "c \<in> set ?t" for c
  proof -
    have "g_spent c = 0" "revenue c = 200"
      using s r that by (auto dest: members_of_map)
    with tier_zero_spend [of 100 "[example_row ''C1'' 0 0 0 0 2]"] that show ?thesis
      by auto
  qed
  with s r show ?thesis by (simp add: list_all_iff)
qed

text \<open>
  C3. On every real ROAS the classifier is defined and uses intervals closed below and open
  above: \<open>roas < 1\<close> is \<open>Loss Making\<close>, \<open>1 \<le> roas < 2\<close> is \<open>Break Even\<close>,
  \<open>2 \<le> roas < 5\<close> is \<open>Profitable\<close> and \<open>roas \<ge> 5\<close> is \<open>Highly Profitable\<close>;
  in particular 1 is \<open>Break Even\<close> and 5 is \<open>Highly Profitable\<close>.
\<close>

theorem tier_intervals:
  "(r < 1 \<longrightarrow> tier (Num r) = ''Loss Making'') \<and>
   (1 \<le> r \<and> r < 2 \<longrightarrow> tier (Num r) = ''Break Even'') \<and>
   (2 \<le> r \<and> r < 5 \<longrightarrow> tier (Num r) = ''Profitable'') \<and>
   (5 \<le> r \<longrightarrow> tier (Num r) = ''Highly Profitable'') \<and>
   tier (Num 1) = ''Break Even'' \<and> tier (Num 5) = ''Highly Profitable''"
  by (simp add: tier_def)

text \<open>One value in each interval, the boundaries 1, 2 and 5 among them.\<close>

theorem tier_intervals_witness:
  "(0::real) < 1 \<and> tier (Num 0) = ''Loss Making'' \<and>
   (1::real) \<le> 1 \<and> (1::real) < 2 \<and> tier (Num 1) = ''Break Even'' \<and>
   (2::real) \<le> 2 \<and> (2::real) < 5 \<and> tier (Num 2) = ''Profitable'' \<and>
   (5::real) \<le> 5 \<and> tier (Num 5) = ''Highly Profitable''"
  using tier_intervals [of 0] tier_intervals [of 1] tier_intervals [of 2] tier_intervals [of 5]
  by simp

section \<open>Aggregation\<close>

text \<open>
  C4. In every row of a grouped table (of any grouping column, and of the campaign table)
  whose summed \<open>approved_conversion\<close> is 0, and in every per-record derivation with
  \<open>approved_conversion = 0\<close>, the cost per acquisition is not-a-number: it is not the
  number 0, and nothing fails.
\<close>

theorem cpa_undefined_without_conversions:
  "(\<forall>g \<in> set (group_roi cv col df). g_approved_conversion g = 0 \<longrightarrow> cpa g = NaN) \<and>
   (\<forall>c \<in> set (calculate_campaign_roi cv df). g_approved_conversion c = 0 \<longrightarrow> cpa c = NaN) \<and>
   (approved_conversion r = 0 \<longrightarrow> cost_per_acquisition (create_kpi_features r) = NaN)"
proof (intro conjI ballI impI)
  fix g assume "g \<in> set (group_roi cv col df)" "g_approved_conversion g = 0"
  then show "cpa g = NaN" by (auto dest!: group_roi_mem)
next
  fix c assume "c \<in> set (calculate_campaign_roi cv df)" "g_approved_conversion c = 0"
  then show "cpa c = NaN" by (auto dest!: campaign_roi_mem)
next
  assume "approved_conversion r = 0"
  then show "cost_per_acquisition (create_kpi_features r) = NaN"
    by (simp add: create_kpi_features_def)
qed

text \<open>A record with spend 5 and no approved conversion, alone in its group.\<close>

theorem cpa_undefined_without_conversions_witness:
  "map g_approved_conversion (group_roi 100 campaign_id [example_row ''C1'' 0 0 5 0 0]) = [0] \<and>
   list_all (\<lambda>g. cpa g = NaN) (group_roi 100 campaign_id [example_row ''C1'' 0 0 5 0 0]) \<and>
   map g_approved_conversion (calculate_campaign_roi 100 [example_row ''C1'' 0 0 5 0 0]) = [0] \<and>
   list_all (\<lambda>c. cpa c = NaN) (calculate_campaign_roi 100 [example_row ''C1'' 0 0 5 0 0]) \<and>
   approved_conversion (example_row ''C1'' 0 0 5 0 0) = 0 \<and>
   cost_per_acquisition (create_kpi_features (example_row ''C1'' 0 0 5 0 0)) = NaN"
proof -
  let ?r = "example_row ''C1'' 0 0 5 0 0"
  note inst = cpa_undefined_without_conversions [of 100 campaign_id "[?r]" ?r]
  have g: "map g_approved_conversion (group_roi 100 campaign_id [?r]) = [0]"
    by (simp add: group_roi_conv groupby_eval)
  have c: "map g_approved_conversion (calculate_campaign_roi 100 [?r]) = [0]"
    by (simp add: calculate_campaign_roi_def groupby_eval)
  from inst all_of_map [OF g]
  have "\<forall>g \<in> set (group_roi 100 campaign_id [?r]). cpa g = NaN" by blast
  moreover from inst all_of_map [OF c]
  have "\<forall>c \<in> set (calculate_campaign_roi 100 [?r]). cpa c = NaN" by blast
  moreover from inst have "cost_per_acquisition (create_kpi_features ?r) = NaN" by simp
  ultimately show ?thesis using g c by (simp add: list_all_iff)
qed

text \<open>
  C5. Within one call of \<open>group_roi\<close>: if the spend summed over the groups of the call is
  nonzero, the \<open>spend_share\<close> values of the rows sum to 1, and if the approved conversions
  summed over the groups are nonzero, the \<open>conversion_share\<close> values sum to 1. Each
  share divides by the total over the rows of this same call and by nothing else. (The model
  computes with reals; the floats of the program reach 1 up to rounding.)
\<close>

theorem shares_sum_to_one:
  "(sum_list (map g_spent (group_roi cv col df)) \<noteq> 0 \<longrightarrow>
      fsum (map spend_share (group_roi cv col df)) = Num 1) \<and>
   (sum_list (map g_approved_conversion (group_roi cv col df)) \<noteq> 0 \<longrightarrow>
      fsum (map conversion_share (group_roi cv col df)) = Num 1) \<and>
   (\<forall>g \<in> set (group_roi cv col df).
      spend_share g =
        fdiv (Num (g_spent g)) (Num (sum_list (map g_spent (group_roi cv col df)))) \<and>
      conversion_share g =
        fdiv (Num (g_approved_conversion g))
             (Num (sum_list (map g_approved_conversion (group_roi cv col df)))))"
proof (intro conjI impI ballI)
  assume "sum_list (map g_spent (group_roi cv col df)) \<noteq> 0"
  then have "sum_list (map g_spent (groupby_agg col df)) \<noteq> 0"
    by (simp add: group_roi_spent)
  then have "fsum (map (\<lambda>g. fdiv (Num (g_spent g))
                 (Num (sum_list (map g_spent (groupby_agg col df))))) (groupby_agg col df)) = Num 1"
    by (rule fsum_shares)
  then show "fsum (map spend_share (group_roi cv col df)) = Num 1"
    by (simp only: group_roi_spend_share)
next
  assume "sum_list (map g_approved_conversion (group_roi cv col df)) \<noteq> 0"
  then have "sum_list (map g_approved_conversion (groupby_agg col df)) \<noteq> 0"
    by (simp add: group_roi_conv)
  then have "fsum (map (\<lambda>g. fdiv (Num (g_approved_conversion g))
                 (Num (sum_list (map g_approved_conversion (groupby_agg col df)))))
               (groupby_agg col df)) = Num 1"
    by (rule fsum_shares)
  then show "fsum (map conversion_share (group_roi cv col df)) = Num 1"
    by (simp only: group_roi_conversion_share)
next
  fix g assume "g \<in> set (group_roi cv col df)"
  then show "spend_share g =
        fdiv (Num (g_spent g)) (Num (sum_list (map g_spent (group_roi cv col df))))"
    unfolding group_roi_spent by (auto dest!: group_roi_mem)
next
  fix g assume "g \<in> set (group_roi cv col df)"
  then show "conversion_share g =
        fdiv (Num (g_approved_conversion g))
             (Num (sum_list (map g_approved_conversion (group_roi cv col df))))"
    unfolding group_roi_conv by (auto dest!: group_roi_mem)
qed

text \<open>Two campaigns with spend 10 and 5 and approved conversions 2 and 0.\<close>

theorem shares_sum_to_one_witness:
  "map g_key (group_roi 100 campaign_id
      [example_row ''C2'' 0 0 5 0 0, example_row ''C1'' 0 0 10 0 2]) = [''C1'', ''C2''] \<and>
   sum_list (map g_spent (group_roi 100 campaign_id
      [example_row ''C2'' 0 0 5 0 0, example_row ''C1'' 0 0 10 0 2])) \<noteq> 0 \<and>
   fsum (map spend_share (group_roi 100 campaign_id
      [example_row ''C2'' 0 0 5 0 0, example_row ''C1'' 0 0 10 0 2])) = Num 1 \<and>
   sum_list (map g_approved_conversion (group_roi 100 campaign_id
      [example_row ''C2'' 0 0 5 0 0, example_row ''C1'' 0 0 10 0 2])) \<noteq> 0 \<and>
   fsum (map conversion_share (group_roi 100 campaign_id
      [example_row ''C2'' 0 0 5 0 0, example_row ''C1'' 0 0 10 0 2])) = Num 1 \<and>
   list_all (\<lambda>g. spend_share g = fdiv (Num (g_spent g)) (Num 15) \<and>
                  conversion_share g = fdiv (Num (g_approved_conversion g)) (Num 2))
     (group_roi 100 campaign_id [example_row ''C2'' 0 0 5 0 0, example_row ''C1'' 0 0 10 0 2])"
proof -
  let ?df = "[example_row ''C2'' 0 0 5 0 0, example_row ''C1'' 0 0 10 0 2]"
  note inst = shares_sum_to_one [of 100 campaign_id ?df]
  have le: "''C1'' \<le> ''C2''" by code_simp
  have nle: "\<not> ''C2'' \<le> ''C1''" by code_simp
  have k: "map g_key (group_roi 100 campaign_id ?df) = [''C1'', ''C2'']"
    by (simp add: group_roi_keys group_keys_def map_filter_simps le nle del: Cons_le_Cons)
  have a: "groupby_agg campaign_id ?df =
      [\<lparr> g_key = ''C1'', g_spent = 10, g_impressions = 0, g_clicks = 0, g_approved_conversion = 2 \<rparr>,
       \<lparr> g_key = ''C2'', g_spent = 5, g_impressions = 0, g_clicks = 0, g_approved_conversion = 0 \<rparr>]"
    by (simp add: groupby_eval le nle del: Cons_le_Cons)
  have s: "sum_list (map g_spent (group_roi 100 campaign_id ?df)) = 15"
    by (simp add: group_roi_spent a)
  have c: "sum_list (map g_approved_conversion (group_roi 100 campaign_id ?df)) = 2"
    by (simp add: group_roi_conv a)
  from inst s have "fsum (map spend_share (group_roi 100 campaign_id ?df)) = Num 1" by simp
  moreover from inst c have "fsum (map conversion_share (group_roi 100 campaign_id ?df)) = Num 1"
    by simp
  moreover from inst have "\<forall>g \<in> set (group_roi 100 campaign_id ?df).
      spend_share g = fdiv (Num (g_spent g)) (Num 15) \<and>
      conversion_share g = fdiv (Num (g_approved_conversion g)) (Num 2)"
    unfolding s c by blast
  ultimately show ?thesis using k s c by (simp add: list_all_iff)
qed

text \<open>
  C6, as amended. For every list of records and every grouping column, each key value
  present in the input has exactly one row in the result of \<open>group_roi\<close>, and every row
  of the result comes from a key of the input; the same holds of the campaign table. No row
  is dropped for having zero spend: where the summed spend of a group is 0, \<open>roi\<close> and
  \<open>roas\<close> are undefined markers (not-a-number or an infinity), never a number, in both
  kinds of table. \<open>efficiency_score\<close> is a column of the tables of \<open>group_roi\<close> only,
  where it is undefined in the same way; the campaign table has no such column. Rows whose key
  is missing belong to no group. The claim as written, that a zero-spend campaign row carries
  an undefined \<open>efficiency_score\<close>, does not hold of the code.
\<close>

theorem aggregation_exhaustive:
  "(\<forall>r \<in> set df. \<forall>k. col r = Some k \<longrightarrow>
      length (filter (\<lambda>g. g_key g = k) (group_roi cv col df)) = 1) \<and>
   (\<forall>g \<in> set (group_roi cv col df).
      (\<exists>r \<in> set df. col r = Some (g_key g)) \<and>
      map_of (group_columns g) ''efficiency_score'' = Some (efficiency_score g) \<and>
      (g_spent g = 0 \<longrightarrow>
         is_undefined (roi g) \<and> is_undefined (roas g) \<and> is_undefined (efficiency_score g))) \<and>
   (\<forall>r \<in> set df. \<forall>k. campaign_id r = Some k \<longrightarrow>
      length (filter (\<lambda>c. g_key c = k) (calculate_campaign_roi cv df)) = 1) \<and>
   (\<forall>c \<in> set (calculate_campaign_roi cv df).
      (\<exists>r \<in> set df. campaign_id r = Some (g_key c)) \<and>
      map_of (campaign_columns c) ''efficiency_score'' = None \<and>
      (g_spent c = 0 \<longrightarrow> is_undefined (roi c) \<and> is_undefined (roas c)))"
proof (intro conjI ballI allI impI)
  fix r k assume "r \<in> set df" "col r = Some k"
  then have "k \<in> set (group_keys col df)" by (auto simp: group_keys_set)
  then show "length (filter (\<lambda>g. g_key g = k) (group_roi cv col df)) = 1"
    by (rule one_row_per_key [OF group_roi_keys group_keys_distinct])
next
  fix g assume "g \<in> set (group_roi cv col df)"
  then have "g_key g \<in> set (map g_key (group_roi cv col df))" by simp
  then show "\<exists>r \<in> set df. col r = Some (g_key g)"
    by (simp only: group_roi_keys group_keys_set) blast
next
  fix g :: "'a group_metrics"
  show "map_of (group_columns g) ''efficiency_score'' = Some (efficiency_score g)"
    by (rule group_column_efficiency)
next
  fix g assume "g \<in> set (group_roi cv col df)" "g_spent g = 0"
  then show "is_undefined (roi g)" "is_undefined (roas g)" "is_undefined (efficiency_score g)"
    by (auto dest!: group_roi_mem simp: fdiv_zero_undefined fdiv_by_undefined_zero)
next
  fix r k assume "r \<in> set df" "campaign_id r = Some k"
  then have "k \<in> set (group_keys campaign_id df)" by (auto simp: group_keys_set)
  then show "length (filter (\<lambda>c. g_key c = k) (calculate_campaign_roi cv df)) = 1"
    by (rule one_row_per_key [OF campaign_roi_keys group_keys_distinct])
next
  fix c assume "c \<in> set (calculate_campaign_roi cv df)"
  then have "g_key c \<in> set (map g_key (calculate_campaign_roi cv df))" by simp
  then show "\<exists>r \<in> set df. campaign_id r = Some (g_key c)"
    by (simp only: campaign_roi_keys group_keys_set) blast
next
  fix c :: "string campaign_metrics"
  show "map_of (campaign_columns c) ''efficiency_score'' = None"
    by (rule campaign_column_efficiency)
next
  fix c assume "c \<in> set (calculate_campaign_roi cv df)" "g_spent c = 0"
  then show "is_undefined (roi c)" "is_undefined (roas c)"
    by (auto dest!: campaign_roi_mem simp: fdiv_zero_undefined)
qed

text \<open>
  One record with no spend and no approved conversion: its campaign row is present with
  \<open>roi\<close> and \<open>roas\<close> not-a-number, and the row has no \<open>efficiency_score\<close>.
\<close>

theorem campaign_efficiency_score_counterexample:
  "map (\<lambda>c. (g_spent c, g_approved_conversion c, roi c, roas c,
              map_of (campaign_columns c) ''efficiency_score''))
     (calculate_campaign_roi 100 [example_row ''C1'' 0 0 0 0 0]) =
   [(0, 0, NaN, NaN, None)]"
  by (simp add: groupby_eval calculate_campaign_roi_def campaign_columns_def)

text \<open>
  Three records, grouped by gender and by campaign: in each grouping one group has spend 10
  and the other has no spend and one approved conversion, so that its quotients are
  \<open>+\<infinity>\<close>.
\<close>

theorem aggregation_exhaustive_witness:
  "gender (example_row ''C1'' 0 0 0 0 1) = Some ''M'' \<and>
   gender ((example_row ''C2'' 100 5 10 2 2)\<lparr>gender := Some ''F''\<rparr>) = Some ''F'' \<and>
   campaign_id (example_row ''C1'' 0 0 0 0 1) = Some ''C1'' \<and>
   campaign_id (example_row ''C2'' 0 0 0 0 0) = Some ''C2'' \<and>
   map (\<lambda>g. (g_key g, g_spent g, roi g, roas g, efficiency_score g))
     (group_roi 100 gender
        [example_row ''C1'' 0 0 0 0 1,
         (example_row ''C2'' 100 5 10 2 2)\<lparr>gender := Some ''F''\<rparr>,
         example_row ''C2'' 0 0 0 0 0]) =
     [(''F'', 10, Num 19, Num 20, Num (2 / 3)), (''M'', 0, PosInf, PosInf, PosInf)] \<and>
   length (filter (\<lambda>g. g_key g = ''M'')
     (group_roi 100 gender
        [example_row ''C1'' 0 0 0 0 1,
         (example_row ''C2'' 100 5 10 2 2)\<lparr>gender := Some ''F''\<rparr>,
         example_row ''C2'' 0 0 0 0 0])) = 1 \<and>
   length (filter (\<lambda>g. g_key g = ''F'')
     (group_roi 100 gender
        [example_row ''C1'' 0 0 0 0 1,
         (example_row ''C2'' 100 5 10 2 2)\<lparr>gender := Some ''F''\<rparr>,
         example_row ''C2'' 0 0 0 0 0])) = 1 \<and>
   list_all (\<lambda>g. is_undefined (roi g) \<and> is_undefined (roas g) \<and> is_undefined (efficiency_score g))
     (filter (\<lambda>g. g_spent g = 0)
        (group_roi 100 gender
           [example_row ''C1'' 0 0 0 0 1,
            (example_row ''C2'' 100 5 10 2 2)\<lparr>gender := Some ''F''\<rparr>,
            example_row ''C2'' 0 0 0 0 0])) \<and>
   map (\<lambda>c. (g_key c, g_spent c, roi c, roas c))
     (calculate_campaign_roi 100
        [example_row ''C1'' 0 0 0 0 1,
         (example_row ''C2'' 100 5 10 2 2)\<lparr>gender := Some ''F''\<rparr>,
         example_row ''C2'' 0 0 0 0 0]) =
     [(''C1'', 0, PosInf, PosInf), (''C2'', 10, Num 19, Num 20)] \<and>
   length (filter (\<lambda>c. g_key c = ''C1'')
     (calculate_campaign_roi 100
        [example_row ''C1'' 0 0 0 0 1,
         (example_row ''C2'' 100 5 10 2 2)\<lparr>gender := Some ''F''\<rparr>,
         example_row ''C2'' 0 0 0 0 0])) = 1 \<and>
   length (filter (\<lambda>c. g_key c = ''C2'')
     (calculate_campaign_roi 100
        [example_row ''C1'' 0 0 0 0 1,
         (example_row ''C2'' 100 5 10 2 2)\<lparr>gender := Some ''F''\<rparr>,
         example_row ''C2'' 0 0 0 0 0])) = 1 \<and>
   list_all (\<lambda>c. is_undefined (roi c) \<and> is_undefined (roas c) \<and>
                  map_of (campaign_columns c) ''efficiency_score'' = None)
     (filter (\<lambda>c. g_spent c = 0)
        (calculate_campaign_roi 100
           [example_row ''C1'' 0 0 0 0 1,
            (example_row ''C2'' 100 5 10 2 2)\<lparr>gender := Some ''F''\<rparr>,
            example_row ''C2'' 0 0 0 0 0]))"
proof -
  let ?df = "[example_row ''C1'' 0 0 0 0 1,
              (example_row ''C2'' 100 5 10 2 2)\<lparr>gender := Some ''F''\<rparr>,
              example_row ''C2'' 0 0 0 0 0]"
  note gi = aggregation_exhaustive [of ?df gender 100]
  have fm: "''F'' \<le> ''M''" and mf: "\<not> ''M'' \<le> ''F''"
    and c12: "''C1'' \<le> ''C2''" and c21: "\<not> ''C2'' \<le> ''C1''"
    by code_simp+
  have ga: "groupby_agg gender ?df =
      [\<lparr> g_key = ''F'', g_spent = 10, g_impressions = 100, g_clicks = 5,
         g_approved_conversion = 2 \<rparr>,
       \<lparr> g_key = ''M'', g_spent = 0, g_impressions = 0, g_clicks = 0,
         g_approved_conversion = 1 \<rparr>]"
    by (simp add: groupby_eval fm mf del: Cons_le_Cons)
  have ca: "groupby_agg campaign_id ?df =
      [\<lparr> g_key = ''C1'', g_spent = 0, g_impressions = 0, g_clicks = 0,
         g_approved_conversion = 1 \<rparr>,
       \<lparr> g_key = ''C2'', g_spent = 10, g_impressions = 100, g_clicks = 5,
         g_approved_conversion = 2 \<rparr>]"
    by (simp add: groupby_eval c12 c21 del: Cons_le_Cons)
  have gt: "map (\<lambda>g. (g_key g, g_spent g, roi g, roas g, efficiency_score g))
              (group_roi 100 gender ?df) =
            [(''F'', 10, Num 19, Num 20, Num (2 / 3)), (''M'', 0, PosInf, PosInf, PosInf)]"
    unfolding group_roi_def ga Let_def by simp
  have ct: "map (\<lambda>c. (g_key c, g_spent c, roi c, roas c)) (calculate_campaign_roi 100 ?df) =
            [(''C1'', 0, PosInf, PosInf), (''C2'', 10, Num 19, Num 20)]"
    unfolding calculate_campaign_roi_def ca by simp
  from gi [THEN conjunct1]
  have g1: "length (filter (\<lambda>g. g_key g = ''M'') (group_roi 100 gender ?df)) = 1"
    and g2: "length (filter (\<lambda>g. g_key g = ''F'') (group_roi 100 gender ?df)) = 1"
    by simp_all
  from gi [THEN conjunct2, THEN conjunct2, THEN conjunct1]
  have c1: "length (filter (\<lambda>c. g_key c = ''C1'') (calculate_campaign_roi 100 ?df)) = 1"
    and c2: "length (filter (\<lambda>c. g_key c = ''C2'') (calculate_campaign_roi 100 ?df)) = 1"
    by simp_all
  from gi [THEN conjunct2, THEN conjunct1]
  have g3: "list_all (\<lambda>g. is_undefined (roi g) \<and> is_undefined (roas g) \<and>
                          is_undefined (efficiency_score g))
              (filter (\<lambda>g. g_spent g = 0) (group_roi 100 gender ?df))"
    unfolding list_all_iff by auto
  from gi [THEN conjunct2, THEN conjunct2, THEN conjunct2]
  have c3: "list_all (\<lambda>c. is_undefined (roi c) \<and> is_undefined (roas c) \<and>
                          map_of (campaign_columns c) ''efficiency_score'' = None)
              (filter (\<lambda>c. g_spent c = 0) (calculate_campaign_roi 100 ?df))"
    unfolding list_all_iff by auto
  have k: "gender (example_row ''C1'' 0 0 0 0 1) = Some ''M''"
    "gender ((example_row ''C2'' 100 5 10 2 2)\<lparr>gender := Some ''F''\<rparr>) = Some ''F''"
    "campaign_id (example_row ''C1'' 0 0 0 0 1) = Some ''C1''"
    "campaign_id (example_row ''C2'' 0 0 0 0 0) = Some ''C2''"
    by simp_all
  from k gt g1 g2 g3 ct c1 c2 c3 show ?thesis by (intro conjI)
qed

section \<open>Overall metrics\<close>

text \<open>
  C7, as amended. The overall metrics sum every counter over the whole input and then apply
  guarded formulas: \<open>roi\<close> is profit over spend and \<open>roas\<close> is revenue over spend when
  the total spend is positive, and both are the number 0 otherwise; \<open>cpa\<close> is spend over
  approved conversions when their total is positive and not-a-number otherwise. The claim as
  written, that \<open>roi\<close> and \<open>roas\<close> are undefined when the total spend is 0, does not
  hold of the code.
\<close>

theorem overall_metrics_guarded:
  "overall_total_spend (calculate_overall_roi cv df) = sum_list (map spent df) \<and>
   overall_total_revenue (calculate_overall_roi cv df) =
     sum_list (map approved_conversion df) * cv \<and>
   overall_total_profit (calculate_overall_roi cv df) =
     sum_list (map approved_conversion df) * cv - sum_list (map spent df) \<and>
   (0 < sum_list (map spent df) \<longrightarrow>
      overall_roi (calculate_overall_roi cv df) =
        Num ((sum_list (map approved_conversion df) * cv - sum_list (map spent df))
             / sum_list (map spent df)) \<and>
      overall_roas (calculate_overall_roi cv df) =
        Num (sum_list (map approved_conversion df) * cv / sum_list (map spent df))) \<and>
   (sum_list (map spent df) \<le> 0 \<longrightarrow>
      overall_roi (calculate_overall_roi cv df) = Num 0 \<and>
      overall_roas (calculate_overall_roi cv df) = Num 0) \<and>
   (0 < sum_list (map approved_conversion df) \<longrightarrow>
      overall_cpa (calculate_overall_roi cv df) =
        Num (sum_list (map spent df) / sum_list (map approved_conversion df))) \<and>
   (sum_list (map approved_conversion df) \<le> 0 \<longrightarrow>
      overall_cpa (calculate_overall_roi cv df) = NaN)"
  by (simp add: calculate_overall_roi_def Let_def)

text \<open>With a total spend of 0 the overall \<open>roi\<close> and \<open>roas\<close> are the number 0.\<close>

theorem overall_zero_spend_counterexample:
  "overall_total_spend (calculate_overall_roi 100 [example_row ''C1'' 0 0 0 0 0]) = 0 \<and>
   overall_roi (calculate_overall_roi 100 [example_row ''C1'' 0 0 0 0 0]) = Num 0 \<and>
   overall_roas (calculate_overall_roi 100 [example_row ''C1'' 0 0 0 0 0]) = Num 0 \<and>
   \<not> is_undefined (overall_roi (calculate_overall_roi 100 [example_row ''C1'' 0 0 0 0 0])) \<and>
   \<not> is_undefined (overall_roas (calculate_overall_roi 100 [example_row ''C1'' 0 0 0 0 0]))"
  by (simp add: calculate_overall_roi_def Let_def)

text \<open>An input with total spend 15 and two approved conversions, and one with neither.\<close>

theorem overall_metrics_guarded_witness:
  "(0::real) < sum_list (map spent [example_row ''C1'' 1000 50 10 3 2, example_row ''C1'' 0 0 5 0 0]) \<and>
   (0::real) < sum_list (map approved_conversion
                  [example_row ''C1'' 1000 50 10 3 2, example_row ''C1'' 0 0 5 0 0]) \<and>
   overall_roi (calculate_overall_roi 100
      [example_row ''C1'' 1000 50 10 3 2, example_row ''C1'' 0 0 5 0 0]) = Num (185 / 15) \<and>
   overall_roas (calculate_overall_roi 100
      [example_row ''C1'' 1000 50 10 3 2, example_row ''C1'' 0 0 5 0 0]) = Num (200 / 15) \<and>
   overall_cpa (calculate_overall_roi 100
      [example_row ''C1'' 1000 50 10 3 2, example_row ''C1'' 0 0 5 0 0]) = Num 7.5 \<and>
   sum_list (map spent [example_row ''C1'' 0 0 0 0 0]) \<le> (0::real) \<and>
   sum_list (map approved_conversion [example_row ''C1'' 0 0 0 0 0]) \<le> (0::real) \<and>
   overall_roi (calculate_overall_roi 100 [example_row ''C1'' 0 0 0 0 0]) = Num 0 \<and>
   overall_roas (calculate_overall_roi 100 [example_row ''C1'' 0 0 0 0 0]) = Num 0 \<and>
   overall_cpa (calculate_overall_roi 100 [example_row ''C1'' 0 0 0 0 0]) = NaN"
  using overall_metrics_guarded
          [of 100 "[example_row ''C1'' 1000 50 10 3 2, example_row ''C1'' 0 0 5 0 0]"]
        overall_metrics_guarded [of 100 "[example_row ''C1'' 0 0 0 0 0]"]
  by simp

section \<open>Demographic segment\<close>

text \<open>
  C8. For every record of a frame that has the \<open>gender\<close> and \<open>age\<close> columns, the
  \<open>demographic_segment\<close> is the gender, an underscore and the age, concatenated; gender
  \<open>MALE\<close> with age \<open>25-34\<close> gives exactly \<open>MALE_25-34\<close>.
\<close>

theorem demographic_segment_concat:
  "(gender_col df = Some gs \<and> age_col df = Some ags \<and> i < length gs \<and> i < length ags \<and>
    gs ! i = Some g \<and> ags ! i = Some a \<longrightarrow>
      (\<exists>seg. demographic_segment_col (create_demographic_features df) = Some seg \<and>
             i < length seg \<and> seg ! i = Some (g @ ''_'' @ a))) \<and>
   demographic_segment_col
     (create_demographic_features
        \<lparr> gender_col = Some [Some ''MALE''], age_col = Some [Some ''25-34''],
          age_group_col = None, demographic_segment_col = None \<rparr>) =
   Some [Some ''MALE_25-34'']"
  by (auto simp: create_demographic_features_def Let_def)

text \<open>The second record of a frame of two.\<close>

theorem demographic_segment_concat_witness:
  "gender_col \<lparr> gender_col = Some [Some ''FEMALE'', Some ''MALE''],
                age_col = Some [Some ''30-34'', Some ''25-34''],
                age_group_col = None, demographic_segment_col = None \<rparr>
     = Some [Some ''FEMALE'', Some ''MALE''] \<and>
   age_col \<lparr> gender_col = Some [Some ''FEMALE'', Some ''MALE''],
             age_col = Some [Some ''30-34'', Some ''25-34''],
             age_group_col = None, demographic_segment_col = None \<rparr>
     = Some [Some ''30-34'', Some ''25-34''] \<and>
   (1::nat) < length [Some ''FEMALE'', Some ''MALE''] \<and>
   (1::nat) < length [Some ''30-34'', Some ''25-34''] \<and>
   [Some ''FEMALE'', Some ''MALE''] ! 1 = Some ''MALE'' \<and>
   [Some ''30-34'', Some ''25-34''] ! 1 = Some ''25-34'' \<and>
   (\<exists>seg. demographic_segment_col
            (create_demographic_features
               \<lparr> gender_col = Some [Some ''FEMALE'', Some ''MALE''],
                 age_col = Some [Some ''30-34'', Some ''25-34''],
                 age_group_col = None, demographic_segment_col = None \<rparr>) = Some seg \<and>
          1 < length seg \<and> seg ! 1 = Some ''MALE_25-34'')"
  using demographic_segment_concat
    [of "\<lparr> gender_col = Some [Some ''FEMALE'', Some ''MALE''],
           age_col = Some [Some ''30-34'', Some ''25-34''],
           age_group_col = None, demographic_segment_col = None \<rparr>"
        "[Some ''FEMALE'', Some ''MALE'']" "[Some ''30-34'', Some ''25-34'']" 1
        "''MALE''" "''25-34''"]
  by simp

section \<open>Campaign table\<close>

text \<open>
  C9. Two records of campaign \<open>C1\<close> with impressions 1000 and 0, clicks 50 and 0, spend
  10 and 5, approved conversions 2 and 0, and a conversion value of 100: the campaign row has
  spend 15, approved conversions 2, revenue 200, profit 185, \<open>roi = 185/15\<close>,
  \<open>roas = 200/15\<close>, \<open>cpa = 7.5\<close>, \<open>ctr = 0.05\<close>, and the tier
  \<open>Highly Profitable\<close>.
\<close>

theorem campaign_scenario:
  "assign_performance_tiers
     (calculate_campaign_roi 100
        [example_row ''C1'' 1000 50 10 tc1 2, example_row ''C1'' 0 0 5 tc2 0]) =
   [\<lparr> g_key = ''C1'', g_spent = 15, g_impressions = 1000, g_clicks = 50,
      g_approved_conversion = 2, revenue = 200, profit = 185,
      roi = Num (185 / 15), roas = Num (200 / 15), cpa = Num 7.5,
      c_ctr = Num 0.05, c_conversion_rate = Num (2 / 50),
      performance_tier = Some ''Highly Profitable'' \<rparr>]"
  by (simp add: groupby_eval calculate_campaign_roi_def assign_performance_tiers_def
      campaign_roi_row_def tier_def Let_def)

text \<open>
  C10, as amended. The campaign-level \<open>ctr\<close> is the unguarded quotient of the summed
  clicks by the summed impressions. For a campaign whose summed impressions are 0 it is an
  undefined marker and never the number 0: not-a-number when the summed clicks are 0 as well,
  \<open>+\<infinity>\<close> when they are positive (\<open>-\<infinity>\<close> when negative). The per-record
  \<open>ctr\<close> of a record without impressions is the number 0. The claim as written, that
  the campaign-level value is not-a-number whenever the impressions are 0, does not hold of
  the code.
\<close>

theorem campaign_ctr_unguarded:
  "(\<forall>c \<in> set (calculate_campaign_roi cv df).
      c_ctr c = fdiv (Num (g_clicks c)) (Num (g_impressions c)) \<and>
      (g_impressions c = 0 \<longrightarrow>
         is_undefined (c_ctr c) \<and>
         c_ctr c = (if g_clicks c = 0 then NaN else if 0 < g_clicks c then PosInf else NegInf))) \<and>
   (impressions r = 0 \<longrightarrow> ctr (create_kpi_features r) = Num 0)"
proof (intro conjI ballI impI)
  fix c assume "c \<in> set (calculate_campaign_roi cv df)"
  then obtain a where c: "c = campaign_roi_row cv a"
    by (blast dest: campaign_roi_mem)
  show "c_ctr c = fdiv (Num (g_clicks c)) (Num (g_impressions c))"
    by (simp add: c)
  assume "g_impressions c = 0"
  then show "is_undefined (c_ctr c)"
    and "c_ctr c = (if g_clicks c = 0 then NaN else if 0 < g_clicks c then PosInf else NegInf)"
    by (simp_all add: c)
next
  assume "impressions r = 0"
  then show "ctr (create_kpi_features r) = Num 0"
    by (simp add: create_kpi_features_def)
qed

text \<open>Five clicks and no impression: the campaign-level \<open>ctr\<close> is \<open>+\<infinity>\<close>.\<close>

theorem campaign_ctr_counterexample:
  "map (\<lambda>c. (g_impressions c, g_clicks c, c_ctr c))
     (calculate_campaign_roi 100 [example_row ''C1'' 0 5 1 0 0]) = [(0, 5, PosInf)] \<and>
   PosInf \<noteq> NaN"
  by (simp add: groupby_eval calculate_campaign_roi_def campaign_roi_row_def Let_def)

text \<open>A campaign with neither impressions nor clicks.\<close>

theorem campaign_ctr_unguarded_witness:
  "map g_impressions (calculate_campaign_roi 100 [example_row ''C1'' 0 0 1 0 0]) = [0] \<and>
   map g_clicks (calculate_campaign_roi 100 [example_row ''C1'' 0 0 1 0 0]) = [0] \<and>
   list_all (\<lambda>c. c_ctr c = NaN) (calculate_campaign_roi 100 [example_row ''C1'' 0 0 1 0 0]) \<and>
   impressions (example_row ''C1'' 0 0 1 0 0) = 0 \<and>
   ctr (create_kpi_features (example_row ''C1'' 0 0 1 0 0)) = Num 0"
proof -
  let ?df = "[example_row ''C1'' 0 0 1 0 0]"
  let ?t = "calculate_campaign_roi 100 ?df"
  note inst = campaign_ctr_unguarded [of 100 ?df "example_row ''C1'' 0 0 1 0 0"]
  have i: "map g_impressions ?t = [0]" and k: "map g_clicks ?t = [0]"
    by (simp_all add: groupby_eval calculate_campaign_roi_def)
  have "c_ctr c = NaN" if "c \<in> set ?t" for c
  proof -
    have "g_impressions c = 0" "g_clicks c = 0"
      using i k that by (auto dest: members_of_map)
    with inst that show ?thesis by auto
  qed
  moreover have "ctr (create_kpi_features (example_row ''C1'' 0 0 1 0 0)) = Num 0"
    using inst by simp
  ultimately show ?thesis using i k by (simp add: list_all_iff)
qed

end
